theory Spec2Isabelle
  imports Main "HOL-Library.AList"
begin

section \<open>Values, failures and effects\<close>

text \<open>
  JavaScript strings and Buffers are modelled as \<open>string\<close> (lists of bytes); the Chinese
  literals of the source are written as their UTF-8 bytes.  A value that is thrown is
  either an \<open>Error\<close> object, of which only the message is ever read, or something else
  (the handlers test \<open>err instanceof Error\<close>).
\<close>

type_synonym bytes = string

datatype exn = JsError string | NonError

text \<open>
  An \<open>async\<close> function is a computation over the outside world \<open>'w\<close> (the file system and
  whatever the native tools keep): it returns a value or throws, and in both cases leaves a
  world behind.  \<open>await\<close> sequences two computations and lets a rejection pass through;
  \<open>try_catch\<close> is \<open>try { ... } catch (err) { ... }\<close>.
\<close>

type_synonym ('w, 'a) io = "'w \<Rightarrow> (exn + 'a) \<times> 'w"

definition ret :: "'a \<Rightarrow> ('w, 'a) io" where
  "ret a = (\<lambda>w. (Inr a, w))"

definition throw :: "exn \<Rightarrow> ('w, 'a) io" where
  "throw e = (\<lambda>w. (Inl e, w))"

definition await :: "('w, 'a) io \<Rightarrow> ('a \<Rightarrow> ('w, 'b) io) \<Rightarrow> ('w, 'b) io" where
  "await m f = (\<lambda>w. case m w of (Inl e, w') \<Rightarrow> (Inl e, w') | (Inr a, w') \<Rightarrow> f a w')"

definition try_catch :: "('w, 'a) io \<Rightarrow> (exn \<Rightarrow> ('w, 'a) io) \<Rightarrow> ('w, 'a) io" where
  "try_catch m h = (\<lambda>w. case m w of (Inl e, w') \<Rightarrow> h e w' | (Inr a, w') \<Rightarrow> (Inr a, w'))"

definition pure_step :: "exn + 'a \<Rightarrow> ('w, 'a) io" where
  "pure_step r = (\<lambda>w. (r, w))"

text \<open>\<open>for (const x of xs) { body }\<close> with the local variables the body updates.\<close>

fun for_of :: "'a list \<Rightarrow> ('a \<Rightarrow> 's \<Rightarrow> ('w, 's) io) \<Rightarrow> 's \<Rightarrow> ('w, 's) io" where
  "for_of [] body acc = ret acc"
| "for_of (x # xs) body acc = await (body x acc) (for_of xs body)"

subsection \<open>Strings\<close>

definition startsWith :: "string \<Rightarrow> string \<Rightarrow> bool" where
  "startsWith s p = (take (length p) s = p)"

text \<open>
  \<open>toLowerCase\<close> on a string held as UTF-8 bytes.  The ASCII capitals become small
  letters, and so does the Kelvin sign (U+212A, lower case \<open>k\<close>), the one character
  outside ASCII whose lower case lies in ASCII.  Every other character outside ASCII is
  left as it is: its lower case lies outside ASCII too, and the source compares the
  result with ASCII extensions only.
\<close>

definition lower_char :: "char \<Rightarrow> char" where
  "lower_char c = (let n = (of_char c :: nat) in if 65 \<le> n \<and> n \<le> 90 then char_of (n + 32) else c)"

definition KELVIN_SIGN :: string where
  "KELVIN_SIGN = [CHR 0xE2, CHR 0x84, CHR 0xAA]"

fun toLowerCase :: "string \<Rightarrow> string" where
  "toLowerCase [] = []"
| "toLowerCase (c # s) =
     (if startsWith (c # s) KELVIN_SIGN then CHR ''k'' # toLowerCase (drop 2 s)
      else lower_char c # toLowerCase s)"

subsection \<open>Messages of the source\<close>

definition MSG_UNSUPPORTED_TYPE :: string where
  "MSG_UNSUPPORTED_TYPE =
     [CHR 0xE4, CHR 0xB8, CHR 0x8D, CHR 0xE6, CHR 0x94, CHR 0xAF, CHR 0xE6, CHR 0x8C, CHR 0x81,
      CHR 0xE7, CHR 0x9A, CHR 0x84, CHR 0xE6, CHR 0x96, CHR 0x87, CHR 0xE4, CHR 0xBB, CHR 0xB6,
      CHR 0xE7, CHR 0xB1, CHR 0xBB, CHR 0xE5, CHR 0x9E, CHR 0x8B]"

definition MSG_PROCESS_FAILED :: string where
  "MSG_PROCESS_FAILED =
     [CHR 0xE5, CHR 0xA4, CHR 0x84, CHR 0xE7, CHR 0x90, CHR 0x86, CHR 0xE5, CHR 0xA4, CHR 0xB1,
      CHR 0xE8, CHR 0xB4, CHR 0xA5]"

definition MSG_NO_OUTPUT_DIR :: string where
  "MSG_NO_OUTPUT_DIR =
     [CHR 0xE6, CHR 0x9C, CHR 0xAA, CHR 0xE6, CHR 0x8F, CHR 0x90, CHR 0xE4, CHR 0xBE, CHR 0x9B,
      CHR 0xE8, CHR 0xBE, CHR 0x93, CHR 0xE5, CHR 0x87, CHR 0xBA, CHR 0xE7, CHR 0x9B, CHR 0xAE,
      CHR 0xE5, CHR 0xBD, CHR 0x95]"

definition MSG_INVALID_PATH :: string where
  "MSG_INVALID_PATH =
     [CHR 0xE6, CHR 0x97, CHR 0xA0, CHR 0xE6, CHR 0x95, CHR 0x88, CHR 0xE7, CHR 0x9A, CHR 0x84,
      CHR 0xE6, CHR 0x96, CHR 0x87, CHR 0xE4, CHR 0xBB, CHR 0xB6, CHR 0xE8, CHR 0xB7, CHR 0xAF,
      CHR 0xE5, CHR 0xBE, CHR 0x84]"

text \<open>The message of a caught value: \<open>err instanceof Error ? err.message : MSG_PROCESS_FAILED\<close>.\<close>

definition err_message :: "exn \<Rightarrow> string" where
  "err_message err = (case err of JsError m \<Rightarrow> m | NonError \<Rightarrow> MSG_PROCESS_FAILED)"

section \<open>Data model (types.ts, outputStrategy.ts)\<close>

record ProcessOptions =
  outputDir :: "string option"
  copySuffix :: "string option"
  overwriteSource :: "bool option"

record ProcessItem =
  path :: string

datatype status = StatusSuccess | StatusSkipped | StatusError

record ProcessResult =
  inputPath :: string
  outputPath :: "string option"
  status :: status
  removed :: "string list option"
  ftype :: "string option"
  message :: "string option"

record ResolvedPath =
  rp_outputPath :: string
  rp_backupPath :: "string option"

text \<open>What a sanitizer returns: \<open>{ removed, type }\<close>.\<close>

record Report =
  rep_removed :: "string list"
  rep_type :: string

text \<open>Truthiness of an optional string and of an optional boolean.\<close>

definition truthy_str :: "string option \<Rightarrow> bool" where
  "truthy_str s = (case s of None \<Rightarrow> False | Some v \<Rightarrow> v \<noteq> [])"

definition truthy_bool :: "bool option \<Rightarrow> bool" where
  "truthy_bool b = (case b of None \<Rightarrow> False | Some v \<Rightarrow> v)"

section \<open>The libraries the source calls\<close>

subsection \<open>Archives (JSZip)\<close>

datatype compression = STORE | DEFLATE

text \<open>An archive as it lies in a file: its entries in order and the archive comment.\<close>

record StoredEntry =
  se_name :: string
  se_dir :: bool
  se_data :: bytes
  se_date :: nat
  se_compression :: compression
  se_comment :: string

record Archive =
  ar_entries :: "StoredEntry list"
  ar_comment :: string

text \<open>A PDF document as pdf-lib holds it: the Info entries, the catalog, the pages.\<close>

record PdfDoc =
  pdf_title :: "string option"
  pdf_author :: "string option"
  pdf_subject :: "string option"
  pdf_keywords :: "string list option"
  pdf_producer :: "string option"
  pdf_creator :: "string option"
  pdf_language :: "string option"
  pdf_catalog_metadata :: bool
  pdf_page_annots :: "bool list"

text \<open>What a file holds: an archive, or bytes of another kind.\<close>

datatype content = Raw bytes | ZipData Archive

text \<open>
  A \<open>ZipObject\<close> of a JSZip instance.  \<open>zo_compression\<close> is the entry's own
  \<open>options.compression\<close>; \<open>zo_loaded_as\<close> is the method the entry had in the archive
  it was loaded from (none for an entry added in memory).
\<close>

record ZipObject =
  zo_name :: string
  zo_dir :: bool
  zo_date :: nat
  zo_data :: bytes
  zo_comment :: "string option"
  zo_compression :: "compression option"
  zo_loaded_as :: "compression option"

text \<open>
  A JSZip instance: \<open>zip.files\<close> (an object keyed by entry name, in insertion order) and
  \<open>zip.comment\<close>.
\<close>

record JSZip =
  zip_files :: "(string \<times> ZipObject) list"
  zip_comment :: "string option"

definition new_JSZip :: JSZip where
  "new_JSZip = \<lparr>zip_files = [], zip_comment = None\<rparr>"

text \<open>
  The operations of a JSZip instance that the sanitizers use, as JSZip 3 defines them.
  Keys that look like array indices, which a JavaScript object enumerates first, are not
  modelled: \<open>zip_files\<close> is kept in insertion order, and assigning to an existing key
  keeps its place.
\<close>

definition ends_with_slash :: "string \<Rightarrow> bool" where
  "ends_with_slash n = (n \<noteq> [] \<and> last n = CHR ''/'')"

definition forceTrailingSlash :: "string \<Rightarrow> string" where
  "forceTrailingSlash n = (if ends_with_slash n then n else n @ ''/'')"

fun lastIndexOf :: "string \<Rightarrow> char \<Rightarrow> nat option" where
  "lastIndexOf [] c = None"
| "lastIndexOf (x # xs) c =
     (case lastIndexOf xs c of
        Some i \<Rightarrow> Some (Suc i)
      | None \<Rightarrow> if x = c then Some 0 else None)"

definition parentFolder :: "string \<Rightarrow> string" where
  "parentFolder p =
     (let q = (if ends_with_slash p then butlast p else p)
      in case lastIndexOf q (CHR ''/'') of
           Some i \<Rightarrow> if 0 < i then take i q else []
         | None \<Rightarrow> [])"

text \<open>The options of \<open>zip.file(name, data, options)\<close> that matter here.\<close>

record FileOptions =
  fo_date :: "nat option"
  fo_dir :: bool
  fo_comment :: "string option"
  fo_compression :: "compression option"
  fo_createFolders :: "bool option"
  fo_loaded_as :: "compression option"

definition dir_object :: "nat \<Rightarrow> string \<Rightarrow> ZipObject" where
  "dir_object now n =
     \<lparr>zo_name = n, zo_dir = True, zo_date = now, zo_data = [], zo_comment = None,
      zo_compression = Some STORE, zo_loaded_as = None\<rparr>"

lemma lastIndexOf_less: "lastIndexOf xs c = Some i \<Longrightarrow> i < length xs"
  by (induction xs arbitrary: i) (auto split: option.splits if_splits)

lemma parentFolder_shorter:
  "parentFolder (forceTrailingSlash n) \<noteq> [] \<Longrightarrow>
   length (parentFolder (forceTrailingSlash n)) < length n"
proof -
  assume ne: "parentFolder (forceTrailingSlash n) \<noteq> []"
  define q where "q = butlast (forceTrailingSlash n)"
  have slash: "ends_with_slash (forceTrailingSlash n)"
    by (simp add: forceTrailingSlash_def ends_with_slash_def)
  have qlen: "length q \<le> length n"
    by (simp add: q_def forceTrailingSlash_def)
  from ne slash obtain i where i: "lastIndexOf q (CHR ''/'') = Some i"
    and p: "parentFolder (forceTrailingSlash n) = take i q"
    by (auto simp: parentFolder_def q_def Let_def split: option.splits if_splits)
  from i have "i < length q" by (rule lastIndexOf_less)
  with p qlen show ?thesis by simp
qed

text \<open>
  \<open>folderAdd\<close>: a folder that is not there yet is added as a directory entry dated now,
  after its own parent folders when \<open>createFolders\<close> is set (JSZip routes this through
  \<open>fileAdd\<close> with \<open>dir: true\<close>; the body of that call is written out here).
\<close>

function folderAdd ::
  "nat \<Rightarrow> bool \<Rightarrow> (string \<times> ZipObject) list \<Rightarrow> string \<Rightarrow> (string \<times> ZipObject) list" where
  "folderAdd now createFolders files n =
     (let n' = forceTrailingSlash n in
      if map_of files n' \<noteq> None then files
      else
        (let parent = parentFolder n';
             files1 = (if createFolders \<and> parent \<noteq> [] then folderAdd now True files parent
                       else files)
         in AList.update n' (dir_object now n') files1))"
  by pat_completeness auto
termination
  by (relation "measure (\<lambda>(now, cf, files, n). length n)") (auto dest: parentFolder_shorter)

declare folderAdd.simps [simp del]

text \<open>
  \<open>fileAdd\<close>: a directory gets a trailing slash; parent folders are created unless
  \<open>createFolders\<close> is switched off (it defaults to true); a directory and an entry with
  no data are stored without compression; the entry replaces one of the same name.
\<close>

definition fileAdd ::
  "nat \<Rightarrow> (string \<times> ZipObject) list \<Rightarrow> string \<Rightarrow> bytes \<Rightarrow> FileOptions \<Rightarrow> (string \<times> ZipObject) list" where
  "fileAdd now files n data opts =
     (let n' = (if fo_dir opts then forceTrailingSlash n else n);
          cf = (case fo_createFolders opts of None \<Rightarrow> True | Some b \<Rightarrow> b);
          parent = parentFolder n';
          files1 = (if cf \<and> parent \<noteq> [] then folderAdd now True files parent else files);
          no_data = (fo_dir opts \<or> data = []);
          obj = \<lparr>zo_name = n', zo_dir = fo_dir opts,
                 zo_date = (case fo_date opts of Some d \<Rightarrow> d | None \<Rightarrow> now),
                 zo_data = (if no_data then [] else data),
                 zo_comment = fo_comment opts,
                 zo_compression = (if no_data then Some STORE else fo_compression opts),
                 zo_loaded_as = fo_loaded_as opts\<rparr>
      in AList.update n' obj files1)"

text \<open>\<open>zip.file(name)\<close>: the entry of that name unless it is a directory.\<close>

definition zip_file_get :: "JSZip \<Rightarrow> string \<Rightarrow> ZipObject option" where
  "zip_file_get z n =
     (case map_of (zip_files z) n of
        Some obj \<Rightarrow> if zo_dir obj then None else Some obj
      | None \<Rightarrow> None)"

text \<open>\<open>zip.file(name, data, options)\<close> and \<open>zip.folder(name)\<close>.\<close>

definition zip_file_set :: "nat \<Rightarrow> JSZip \<Rightarrow> string \<Rightarrow> bytes \<Rightarrow> FileOptions \<Rightarrow> JSZip" where
  "zip_file_set now z n data opts = z\<lparr>zip_files := fileAdd now (zip_files z) n data opts\<rparr>"

definition zip_folder :: "nat \<Rightarrow> JSZip \<Rightarrow> string \<Rightarrow> JSZip" where
  "zip_folder now z n =
     (if n = [] then z else z\<lparr>zip_files := folderAdd now True (zip_files z) n\<rparr>)"

definition plain_options :: FileOptions where
  "plain_options =
     \<lparr>fo_date = None, fo_dir = False, fo_comment = None, fo_compression = None,
      fo_createFolders = None, fo_loaded_as = None\<rparr>"

text \<open>
  \<open>zip.remove(name)\<close>: a file entry is deleted; otherwise every entry whose name starts
  with the folder's name (with a slash added when no entry of that name exists) is deleted.
\<close>

definition zip_remove :: "JSZip \<Rightarrow> string \<Rightarrow> JSZip" where
  "zip_remove z n0 =
     (let n = (if map_of (zip_files z) n0 = None \<and> \<not> ends_with_slash n0 then n0 @ ''/'' else n0);
          file = map_of (zip_files z) n;
          kids = filter (\<lambda>(k, obj). k \<noteq> [] \<and> take (length n) (zo_name obj) = n) (zip_files z)
      in case file of
           Some obj \<Rightarrow>
             if \<not> zo_dir obj then z\<lparr>zip_files := AList.delete n (zip_files z)\<rparr>
             else z\<lparr>zip_files := foldl (\<lambda>fs k. AList.delete k fs) (zip_files z) (map (zo_name \<circ> snd) kids)\<rparr>
         | None \<Rightarrow>
             z\<lparr>zip_files := foldl (\<lambda>fs k. AList.delete k fs) (zip_files z) (map (zo_name \<circ> snd) kids)\<rparr>)"

text \<open>
  \<open>JSZip.loadAsync\<close>: bytes that are no archive are rejected with JSZip's own message;
  the entries of an archive are added in order, without creating folders, a name that ends
  with a slash being a directory.
\<close>

definition JSZIP_NOT_A_ZIP :: string where
  "JSZIP_NOT_A_ZIP =
     ''Can'' @ [CHR 0x27] @ ''t find end of central directory : is this a zip file ? ''
     @ ''If it is, see https://stuk.github.io/jszip/documentation/howto/read_zip.html''"

definition load_options :: "StoredEntry \<Rightarrow> FileOptions" where
  "load_options e =
     \<lparr>fo_date = Some (se_date e),
      fo_dir = (se_dir e \<or> ends_with_slash (se_name e)),
      fo_comment = (if se_comment e = [] then None else Some (se_comment e)),
      fo_compression = None,
      fo_createFolders = Some False,
      fo_loaded_as = Some (se_compression e)\<rparr>"

definition loadAsync :: "content \<Rightarrow> exn + JSZip" where
  "loadAsync c =
     (case c of
        ZipData a \<Rightarrow>
          Inr \<lparr>zip_files =
                 foldl (\<lambda>files e. fileAdd 0 files (se_name e) (se_data e) (load_options e)) []
                   (ar_entries a),
               zip_comment = (if ar_comment a = [] then None else Some (ar_comment a))\<rparr>
      | _ \<Rightarrow> Inl (JsError JSZIP_NOT_A_ZIP))"

text \<open>
  \<open>zip.generateAsync(options)\<close>: every entry is written under its own compression
  option, or under the archive-wide one when it has none; the archive comment is
  \<open>options.comment || zip.comment || ""\<close>.
\<close>

record GenOptions =
  go_compression :: "compression option"
  go_comment :: "string option"

definition entry_compression :: "GenOptions \<Rightarrow> ZipObject \<Rightarrow> compression" where
  "entry_compression opts obj =
     (case zo_compression obj of
        Some m \<Rightarrow> m
      | None \<Rightarrow> (case go_compression opts of Some m \<Rightarrow> m | None \<Rightarrow> STORE))"

definition stored_entry :: "GenOptions \<Rightarrow> string \<times> ZipObject \<Rightarrow> StoredEntry" where
  "stored_entry opts kv =
     \<lparr>se_name = fst kv, se_dir = zo_dir (snd kv), se_data = zo_data (snd kv),
      se_date = zo_date (snd kv), se_compression = entry_compression opts (snd kv),
      se_comment = (case zo_comment (snd kv) of Some c \<Rightarrow> c | None \<Rightarrow> [])\<rparr>"

definition generateAsync :: "JSZip \<Rightarrow> GenOptions \<Rightarrow> content" where
  "generateAsync z opts =
     ZipData
       \<lparr>ar_entries = map (stored_entry opts) (filter (\<lambda>kv. fst kv \<noteq> []) (zip_files z)),
        ar_comment =
          (case go_comment opts of
             Some c \<Rightarrow> if c \<noteq> [] then c else (case zip_comment z of Some d \<Rightarrow> d | None \<Rightarrow> [])
           | None \<Rightarrow> (case zip_comment z of Some d \<Rightarrow> d | None \<Rightarrow> []))\<rparr>"

subsection \<open>Node's path and fs modules, file-type, sharp, pdf-lib, ffmpeg\<close>

record ParsedPath =
  pp_root :: string
  pp_dir :: string
  pp_base :: string
  pp_ext :: string
  pp_name :: string

record Stats =
  st_atime :: nat
  st_mtime :: nat

datatype icc_value = IccUndefined | IccBuffer bytes | IccString string

record SharpMetadata =
  sm_format :: "string option"
  sm_icc :: icc_value

text \<open>
  Everything outside the repository is a parameter of the model: what the calls do to
  the world, what they return and when they throw is left open, so every theorem below
  holds for every behaviour of these libraries.  \<open>fs_mkdir_recursive d\<close> is
  \<open>fs.promises.mkdir(d, { recursive: true })\<close>; \<open>sharp_toBuffer src icc format\<close> is the
  pipeline \<open>sharp(src)[.withMetadata({ icc })].toFormat(format).toBuffer()\<close>;
  \<open>ffmpeg_save src options dst\<close> is \<open>ffmpeg(src).outputOptions(options).save(dst)\<close>
  up to its \<open>end\<close> or \<open>error\<close> event; \<open>replace_trackRevisions\<close> is the pair of regular
  expression replacements of \<open>stripTrackRevisions\<close>; \<open>date_now\<close> is \<open>new Date()\<close>.
\<close>

record 'w env =
  path_parse :: "string \<Rightarrow> ParsedPath"
  path_join :: "string \<Rightarrow> string \<Rightarrow> string"
  date_now :: nat
  fs_mkdir_recursive :: "string \<Rightarrow> ('w, unit) io"
  fs_stat :: "string \<Rightarrow> ('w, Stats) io"
  fs_copyFile :: "string \<Rightarrow> string \<Rightarrow> ('w, unit) io"
  fs_utimes :: "string \<Rightarrow> nat \<Rightarrow> nat \<Rightarrow> ('w, unit) io"
  fs_rename :: "string \<Rightarrow> string \<Rightarrow> ('w, unit) io"
  fs_existsSync :: "string \<Rightarrow> 'w \<Rightarrow> bool"
  fs_unlink :: "string \<Rightarrow> ('w, unit) io"
  fs_readFile :: "string \<Rightarrow> ('w, content) io"
  fs_writeFile :: "string \<Rightarrow> content \<Rightarrow> ('w, unit) io"
  fileTypeFromFile :: "string \<Rightarrow> ('w, string option) io"
  sharp_metadata :: "string \<Rightarrow> ('w, SharpMetadata) io"
  sharp_toBuffer :: "string \<Rightarrow> string option \<Rightarrow> string \<Rightarrow> ('w, bytes) io"
  pdf_load :: "content \<Rightarrow> exn + PdfDoc"
  pdf_save :: "PdfDoc \<Rightarrow> exn + content"
  ffmpeg_save :: "string \<Rightarrow> string list \<Rightarrow> string \<Rightarrow> ('w, unit) io"
  replace_trackRevisions :: "string \<Rightarrow> string"

section \<open>The sanitizers\<close>

subsection \<open>Literals\<close>

definition LEGACY_OFFICE_PREFIX :: string where
  "LEGACY_OFFICE_PREFIX =
     [CHR 0xE6, CHR 0x9A, CHR 0x82, CHR 0xE4, CHR 0xB8, CHR 0x8D, CHR 0xE6, CHR 0x94,
      CHR 0xAF, CHR 0xE6, CHR 0x8C, CHR 0x81, CHR 0xE6, CHR 0x97, CHR 0xA7, CHR 0xE7,
      CHR 0x89, CHR 0x88] @ '' Office '' @ [CHR 0xE6, CHR 0xA0, CHR 0xBC, CHR 0xE5,
      CHR 0xBC, CHR 0x8F] @ '' (''"

definition LEGACY_OFFICE_MIDDLE :: string where
  "LEGACY_OFFICE_MIDDLE =
     '')'' @ [CHR 0xE3, CHR 0x80, CHR 0x82, CHR 0xE8, CHR 0xAF, CHR 0xB7, CHR 0xE5,
      CHR 0x85, CHR 0x88, CHR 0xE4, CHR 0xBD, CHR 0xBF, CHR 0xE7, CHR 0x94, CHR 0xA8]
      @ '' Office '' @ [CHR 0xE6, CHR 0x88, CHR 0x96, CHR 0xE5, CHR 0x9C, CHR 0xA8,
      CHR 0xE7, CHR 0xBA, CHR 0xBF, CHR 0xE8, CHR 0xBD, CHR 0xAC, CHR 0xE6, CHR 0x8D,
      CHR 0xA2, CHR 0xE5, CHR 0xB7, CHR 0xA5, CHR 0xE5, CHR 0x85, CHR 0xB7, CHR 0xE5,
      CHR 0xB0, CHR 0x86, CHR 0xE5, CHR 0x85, CHR 0xB6, CHR 0xE8, CHR 0xBD, CHR 0xAC,
      CHR 0xE6, CHR 0x8D, CHR 0xA2, CHR 0xE4, CHR 0xB8, CHR 0xBA, CHR 0xE6, CHR 0x96,
      CHR 0xB0, CHR 0xE7, CHR 0x89, CHR 0x88, CHR 0xE6, CHR 0xA0, CHR 0xBC, CHR 0xE5,
      CHR 0xBC, CHR 0x8F] @ '' ''"

definition LEGACY_OFFICE_END :: string where
  "LEGACY_OFFICE_END =
     '' '' @ [CHR 0xE5, CHR 0x90, CHR 0x8E, CHR 0xE5, CHR 0x86, CHR 0x8D, CHR 0xE5,
      CHR 0xA4, CHR 0x84, CHR 0xE7, CHR 0x90, CHR 0x86, CHR 0xE3, CHR 0x80, CHR 0x82]"

definition MSG_OFFICE_UNPARSABLE :: string where
  "MSG_OFFICE_UNPARSABLE =
     [CHR 0xE6, CHR 0x97, CHR 0xA0, CHR 0xE6, CHR 0xB3, CHR 0x95, CHR 0xE8, CHR 0xA7,
      CHR 0xA3, CHR 0xE6, CHR 0x9E, CHR 0x90, CHR 0xE8, CHR 0xAF, CHR 0xA5] @ '' Office ''
      @ [CHR 0xE6, CHR 0x96, CHR 0x87, CHR 0xE4, CHR 0xBB, CHR 0xB6, CHR 0xEF, CHR 0xBC,
      CHR 0x8C, CHR 0xE5, CHR 0x8F, CHR 0xAF, CHR 0xE8, CHR 0x83, CHR 0xBD, CHR 0xE6,
      CHR 0x96, CHR 0x87, CHR 0xE4, CHR 0xBB, CHR 0xB6, CHR 0xE5, CHR 0xB7, CHR 0xB2,
      CHR 0xE6, CHR 0x8D, CHR 0x9F, CHR 0xE5, CHR 0x9D, CHR 0x8F, CHR 0xE6, CHR 0x88,
      CHR 0x96, CHR 0xE4, CHR 0xB8, CHR 0xBA, CHR 0xE4, CHR 0xB8, CHR 0x8D, CHR 0xE6,
      CHR 0x94, CHR 0xAF, CHR 0xE6, CHR 0x8C, CHR 0x81, CHR 0xE7, CHR 0x9A, CHR 0x84,
      CHR 0xE6, CHR 0x97, CHR 0xA7, CHR 0xE7, CHR 0x89, CHR 0x88, CHR 0xE4, CHR 0xBA,
      CHR 0x8C, CHR 0xE8, CHR 0xBF, CHR 0x9B, CHR 0xE5, CHR 0x88, CHR 0xB6, CHR 0xE6,
      CHR 0xA0, CHR 0xBC, CHR 0xE5, CHR 0xBC, CHR 0x8F, CHR 0xE3, CHR 0x80, CHR 0x82]"

definition ZIP_REMOVED :: string where
  "ZIP_REMOVED =
     ''ZIP '' @ [CHR 0xE6, CHR 0xB3, CHR 0xA8, CHR 0xE9, CHR 0x87, CHR 0x8A] @ ''/''
      @ [CHR 0xE9, CHR 0x99, CHR 0x84, CHR 0xE5, CHR 0x8A, CHR 0xA0, CHR 0xE5, CHR 0xA4,
      CHR 0xB4]"

definition IMAGE_REMOVED_2 :: string where
  "IMAGE_REMOVED_2 =
     [CHR 0xE7, CHR 0xBC, CHR 0xA9, CHR 0xE7, CHR 0x95, CHR 0xA5, CHR 0xE5, CHR 0x9B,
      CHR 0xBE] @ ''/'' @ [CHR 0xE8, CHR 0x87, CHR 0xAA, CHR 0xE5, CHR 0xAE, CHR 0x9A,
      CHR 0xE4, CHR 0xB9, CHR 0x89, CHR 0xE5, CHR 0x9D, CHR 0x97]"

definition PDF_REMOVED_2 :: string where
  "PDF_REMOVED_2 =
     [CHR 0xE6, CHR 0xB3, CHR 0xA8, CHR 0xE9, CHR 0x87, CHR 0x8A] @ ''/'' @ [CHR 0xE8,
      CHR 0xA1, CHR 0xA8, CHR 0xE5, CHR 0x8D, CHR 0x95, CHR 0xE9, CHR 0xBB, CHR 0x98,
      CHR 0xE8, CHR 0xAE, CHR 0xA4, CHR 0xE5, CHR 0x80, CHR 0xBC]"

definition VIDEO_REMOVED_1 :: string where
  "VIDEO_REMOVED_1 =
     [CHR 0xE5, CHR 0x85, CHR 0xA8, CHR 0xE5, CHR 0xB1, CHR 0x80, CHR 0xE5, CHR 0x85,
      CHR 0x83, CHR 0xE6, CHR 0x95, CHR 0xB0, CHR 0xE6, CHR 0x8D, CHR 0xAE]
      @ '' (Title/Artist/Creation Time)''"

definition VIDEO_REMOVED_2 :: string where
  "VIDEO_REMOVED_2 =
     [CHR 0xE6, CHR 0xB5, CHR 0x81, CHR 0xE5, CHR 0x85, CHR 0x83, CHR 0xE6, CHR 0x95,
      CHR 0xB0, CHR 0xE6, CHR 0x8D, CHR 0xAE]"

definition VIDEO_REMOVED_3 :: string where
  "VIDEO_REMOVED_3 =
     [CHR 0xE7, CHR 0xAB, CHR 0xA0, CHR 0xE8, CHR 0x8A, CHR 0x82, CHR 0xE4, CHR 0xBF,
      CHR 0xA1, CHR 0xE6, CHR 0x81, CHR 0xAF]"

definition VIDEO_REMOVED_4 :: string where
  "VIDEO_REMOVED_4 =
     [CHR 0xE7, CHR 0xA1, CHR 0xAC, CHR 0xE4, CHR 0xBB, CHR 0xB6] @ ''/'' @ [CHR 0xE7,
      CHR 0xBC, CHR 0x96, CHR 0xE7, CHR 0xA0, CHR 0x81, CHR 0xE5, CHR 0x99, CHR 0xA8,
      CHR 0xE4, CHR 0xBF, CHR 0xA1, CHR 0xE6, CHR 0x81, CHR 0xAF]"

definition EMPTY_WORD_COMMENTS :: string where
  "EMPTY_WORD_COMMENTS =
     ''<w:comments xmlns:w='' @ [CHR 0x22]
      @ ''http://schemas.openxmlformats.org/wordprocessingml/2006/main'' @ [CHR 0x22]
      @ ''></w:comments>''"

definition EMPTY_XLSX_COMMENTS :: string where
  "EMPTY_XLSX_COMMENTS =
     ''<comments xmlns='' @ [CHR 0x22]
      @ ''http://schemas.openxmlformats.org/spreadsheetml/2006/main'' @ [CHR 0x22]
      @ ''></comments>''"

definition EMPTY_PPT_COMMENTS :: string where
  "EMPTY_PPT_COMMENTS =
     ''<p:cmLst xmlns:a='' @ [CHR 0x22]
      @ ''http://schemas.openxmlformats.org/drawingml/2006/main'' @ [CHR 0x22]
      @ '' xmlns:p='' @ [CHR 0x22]
      @ ''http://schemas.openxmlformats.org/presentationml/2006/main'' @ [CHR 0x22]
      @ ''></p:cmLst>''"

definition legacy_office_message :: "string \<Rightarrow> string" where
  "legacy_office_message ext =
     LEGACY_OFFICE_PREFIX @ ext @ LEGACY_OFFICE_MIDDLE @ ''(.docx, .xlsx, .pptx)'' @ LEGACY_OFFICE_END"

definition COMMON_REMOVALS :: "string list" where
  "COMMON_REMOVALS =
     [''docProps/core.xml'', ''docProps/app.xml'', ''docProps/custom.xml'',
      ''docProps/thumbnail.emf'', ''docProps/thumbnail.jpeg'']"

definition CUSTOM_XML_PREFIX :: string where
  "CUSTOM_XML_PREFIX = ''customXml/''"

definition deflate_options :: GenOptions where
  "deflate_options = \<lparr>go_compression = Some DEFLATE, go_comment = None\<rparr>"

subsection \<open>zipProcessor.ts\<close>

text \<open>The body of the loop of \<open>processZip\<close>, and the loop over \<open>Object.values(zip.files)\<close>.\<close>

definition rebuild_entry :: "nat \<Rightarrow> JSZip \<Rightarrow> ZipObject \<Rightarrow> JSZip" where
  "rebuild_entry now rebuilt entry =
     (if zo_dir entry then zip_folder now rebuilt (zo_name entry)
      else zip_file_set now rebuilt (zo_name entry) (zo_data entry)
             (plain_options\<lparr>fo_date := Some (zo_date entry)\<rparr>))"

definition rebuild :: "nat \<Rightarrow> JSZip \<Rightarrow> JSZip" where
  "rebuild now zp = foldl (rebuild_entry now) new_JSZip (map snd (zip_files zp))"

definition processZip :: "'w env \<Rightarrow> string \<Rightarrow> string \<Rightarrow> ('w, Report) io" where
  "processZip env inp out =
     await (fs_readFile env inp) (\<lambda>data.
     await (pure_step (loadAsync data)) (\<lambda>zp.
     await (fs_writeFile env out (generateAsync (rebuild (date_now env) zp) deflate_options)) (\<lambda>_.
     ret \<lparr>rep_removed = [ZIP_REMOVED], rep_type = ''zip''\<rparr>)))"

subsection \<open>imageProcessor.ts\<close>

definition supportedFormats :: "string set" where
  "supportedFormats = {''jpeg'', ''jpg'', ''png'', ''webp'', ''tiff'', ''gif'', ''avif'', ''heif''}"

definition processImage :: "'w env \<Rightarrow> string \<Rightarrow> string \<Rightarrow> ('w, Report) io" where
  "processImage env inp out =
     await (sharp_metadata env inp) (\<lambda>meta.
       let iccProfile = (case sm_icc meta of IccString s \<Rightarrow> Some s | _ \<Rightarrow> None);
           ext = toLowerCase (remove1 (CHR ''.'') (pp_ext (path_parse env inp)));
           formatFromMeta =
             (case sm_format meta of
                Some f \<Rightarrow> if f \<noteq> [] \<and> f \<in> supportedFormats then Some f else None
              | None \<Rightarrow> None);
           formatFromExt = (if ext \<in> supportedFormats then Some ext else None);
           targetFormat =
             (case formatFromMeta of
                Some f \<Rightarrow> f
              | None \<Rightarrow> (case formatFromExt of Some f \<Rightarrow> f | None \<Rightarrow> ''png''));
           icc = (if truthy_str iccProfile then iccProfile else None)
       in await (sharp_toBuffer env inp icc targetFormat) (\<lambda>buffer.
          await (fs_writeFile env out (Raw buffer)) (\<lambda>_.
          ret \<lparr>rep_removed = [''EXIF/IPTC/XMP/MakerNotes'', IMAGE_REMOVED_2],
               rep_type = ''image''\<rparr>)))"

subsection \<open>pdfProcessor.ts\<close>

definition processPdf :: "'w env \<Rightarrow> string \<Rightarrow> string \<Rightarrow> ('w, Report) io" where
  "processPdf env inp out =
     await (fs_readFile env inp) (\<lambda>data.
     await (pure_step (pdf_load env data)) (\<lambda>pdfDoc.
       let blanked = pdfDoc\<lparr>pdf_title := Some [], pdf_author := Some [], pdf_subject := Some [],
                             pdf_keywords := Some [], pdf_producer := Some [],
                             pdf_creator := Some [], pdf_language := Some []\<rparr>;
           no_xmp = (if pdf_catalog_metadata blanked then blanked\<lparr>pdf_catalog_metadata := False\<rparr>
                     else blanked);
           no_annots = no_xmp\<lparr>pdf_page_annots := map (\<lambda>has. False) (pdf_page_annots no_xmp)\<rparr>
       in await (pure_step (pdf_save env no_annots)) (\<lambda>cleaned.
          await (fs_writeFile env out cleaned) (\<lambda>_.
          ret \<lparr>rep_removed = [''Info/XMP'', PDF_REMOVED_2], rep_type = ''pdf''\<rparr>))))"

subsection \<open>videoProcessor.ts\<close>

definition video_outputOptions :: "string list" where
  "video_outputOptions =
     [''-map_metadata -1'', ''-map_chapters -1'', ''-metadata encoder='', ''-fflags +bitexact'',
      ''-flags:v +bitexact'', ''-flags:a +bitexact'', ''-c copy'']"

definition processVideo :: "'w env \<Rightarrow> string \<Rightarrow> string \<Rightarrow> ('w, Report) io" where
  "processVideo env inp out =
     await (ffmpeg_save env inp video_outputOptions out) (\<lambda>_.
     ret \<lparr>rep_removed = [VIDEO_REMOVED_1, VIDEO_REMOVED_2, VIDEO_REMOVED_3, VIDEO_REMOVED_4],
          rep_type = ''video''\<rparr>)"

subsection \<open>officeProcessor.ts\<close>

text \<open>
  The state of the office sanitizer is the archive being edited and the \<open>removed\<close> list
  it appends to.
\<close>

definition stripTrackRevisions :: "'w env \<Rightarrow> JSZip \<times> string list \<Rightarrow> JSZip \<times> string list" where
  "stripTrackRevisions env st =
     (case zip_file_get (fst st) ''word/settings.xml'' of
        None \<Rightarrow> st
      | Some settings \<Rightarrow>
          (let xml = zo_data settings;
               cleaned = replace_trackRevisions env xml
           in if cleaned \<noteq> xml
              then (zip_file_set (date_now env) (fst st) ''word/settings.xml'' cleaned plain_options,
                    snd st @ [''word/settings.xml trackRevisions''])
              else st))"

definition remove_fixed :: "JSZip \<times> string list \<Rightarrow> string \<Rightarrow> JSZip \<times> string list" where
  "remove_fixed st entry =
     (if zip_file_get (fst st) entry \<noteq> None then (zip_remove (fst st) entry, snd st @ [entry])
      else st)"

definition remove_custom :: "JSZip \<times> string list \<Rightarrow> string \<Rightarrow> JSZip \<times> string list" where
  "remove_custom st f = (zip_remove (fst st) f, snd st @ [CUSTOM_XML_PREFIX])"

definition removeCommon :: "JSZip \<times> string list \<Rightarrow> JSZip \<times> string list" where
  "removeCommon st =
     (let st1 = foldl remove_fixed st COMMON_REMOVALS
      in foldl remove_custom st1
           (filter (\<lambda>f. startsWith f CUSTOM_XML_PREFIX) (map fst (zip_files (fst st1)))))"

definition clearIfExists ::
  "'w env \<Rightarrow> string \<Rightarrow> string \<Rightarrow> JSZip \<times> string list \<Rightarrow> JSZip \<times> string list" where
  "clearIfExists env fileName data st =
     (if zip_file_get (fst st) fileName \<noteq> None
      then (zip_file_set (date_now env) (fst st) fileName data plain_options,
            snd st @ [fileName @ '' cleared''])
      else st)"

definition processDocx :: "'w env \<Rightarrow> JSZip \<times> string list \<Rightarrow> JSZip \<times> string list" where
  "processDocx env st =
     stripTrackRevisions env
       (clearIfExists env ''word/commentsExtended.xml'' EMPTY_WORD_COMMENTS
         (clearIfExists env ''word/comments.xml'' EMPTY_WORD_COMMENTS st))"

definition clear_each ::
  "'w env \<Rightarrow> string \<Rightarrow> string \<Rightarrow> JSZip \<times> string list \<Rightarrow> JSZip \<times> string list" where
  "clear_each env pre data st =
     foldl (\<lambda>s f. (zip_file_set (date_now env) (fst s) f data plain_options, snd s @ [f @ '' cleared'']))
       st (filter (\<lambda>f. startsWith f pre) (map fst (zip_files (fst st))))"

definition processXlsx :: "'w env \<Rightarrow> JSZip \<times> string list \<Rightarrow> JSZip \<times> string list" where
  "processXlsx env st = clear_each env ''xl/comments'' EMPTY_XLSX_COMMENTS st"

definition processPptx :: "'w env \<Rightarrow> JSZip \<times> string list \<Rightarrow> JSZip \<times> string list" where
  "processPptx env st = clear_each env ''ppt/comments'' EMPTY_PPT_COMMENTS st"

text \<open>What both copies of \<open>processOffice\<close> do once the archive is open.\<close>

definition office_edit :: "'w env \<Rightarrow> string \<Rightarrow> string \<Rightarrow> JSZip \<Rightarrow> ('w, Report) io" where
  "office_edit env ext out zp =
     (let st1 = removeCommon (zp, []);
          st2 = (if ext = ''.docx'' then processDocx env st1
                 else if ext = ''.xlsx'' then processXlsx env st1
                 else if ext = ''.pptx'' then processPptx env st1
                 else st1)
      in await (fs_writeFile env out (generateAsync (fst st2) deflate_options)) (\<lambda>_.
         ret \<lparr>rep_removed = snd st2, rep_type = ''office''\<rparr>))"

text \<open>
  \<open>processOffice\<close> as the file with the legacy check has it (the second document of
  part_004).
\<close>

definition processOffice :: "'w env \<Rightarrow> string \<Rightarrow> string \<Rightarrow> ('w, Report) io" where
  "processOffice env inp out =
     (let ext = toLowerCase (pp_ext (path_parse env inp)) in
      if ext \<in> set [''.doc'', ''.xls'', ''.ppt''] then throw (JsError (legacy_office_message ext))
      else
        await (fs_readFile env inp) (\<lambda>buffer.
        await (try_catch (pure_step (loadAsync buffer)) (\<lambda>err. throw (JsError MSG_OFFICE_UNPARSABLE)))
          (\<lambda>zp. office_edit env ext out zp)))"

text \<open>\<open>processOffice\<close> as part_005 has it: the archive is read and parsed first.\<close>

definition processOffice_part_005 :: "'w env \<Rightarrow> string \<Rightarrow> string \<Rightarrow> ('w, Report) io" where
  "processOffice_part_005 env inp out =
     await (fs_readFile env inp) (\<lambda>buffer.
     await (pure_step (loadAsync buffer)) (\<lambda>zp.
     office_edit env (toLowerCase (pp_ext (path_parse env inp))) out zp))"

section \<open>The dispatcher (processorRouter.ts)\<close>

definition imageExts :: "string set" where
  "imageExts = {''.jpg'', ''.jpeg'', ''.png'', ''.webp'', ''.tiff'', ''.gif'', ''.avif'', ''.heic''}"

definition officeExts :: "string set" where
  "officeExts = {''.docx'', ''.xlsx'', ''.pptx'', ''.doc'', ''.xls'', ''.ppt''}"

definition pdfExts :: "string set" where
  "pdfExts = {''.pdf''}"

definition zipExts :: "string set" where
  "zipExts = {''.zip''}"

definition videoExts :: "string set" where
  "videoExts = {''.mp4'', ''.mkv'', ''.mov'', ''.avi'', ''.wmv'', ''.flv'', ''.webm''}"

text \<open>\<open>{ inputPath, outputPath, status: 'success', ...res }\<close>\<close>

definition success_result :: "string \<Rightarrow> string \<Rightarrow> Report \<Rightarrow> ProcessResult" where
  "success_result inp out res =
     \<lparr>inputPath = inp, outputPath = Some out, status = StatusSuccess,
      removed = Some (rep_removed res), ftype = Some (rep_type res), message = None\<rparr>"

definition unsupported_result :: "string \<Rightarrow> ProcessResult" where
  "unsupported_result inp =
     \<lparr>inputPath = inp, outputPath = None, status = StatusError, removed = None, ftype = None,
      message = Some MSG_UNSUPPORTED_TYPE\<rparr>"

definition caught_result :: "string \<Rightarrow> string \<Rightarrow> exn \<Rightarrow> ProcessResult" where
  "caught_result inp out err =
     \<lparr>inputPath = inp, outputPath = Some out, status = StatusError, removed = None, ftype = None,
      message = Some (err_message err)\<rparr>"

definition processByType :: "'w env \<Rightarrow> string \<Rightarrow> string \<Rightarrow> ('w, ProcessResult) io" where
  "processByType env inp out =
     (let ext = toLowerCase (pp_ext (path_parse env inp)) in
      await (fileTypeFromFile env inp) (\<lambda>detected.
        let mime = (case detected of Some m \<Rightarrow> m | None \<Rightarrow> []) in
        try_catch
          (if ext \<in> imageExts \<or> startsWith mime ''image/'' then
             await (processImage env inp out) (\<lambda>res. ret (success_result inp out res))
           else if ext \<in> pdfExts \<or> mime = ''application/pdf'' then
             await (processPdf env inp out) (\<lambda>res. ret (success_result inp out res))
           else if ext \<in> officeExts then
             await (processOffice env inp out) (\<lambda>res. ret (success_result inp out res))
           else if ext \<in> zipExts \<or> mime = ''application/zip'' then
             await (processZip env inp out) (\<lambda>res. ret (success_result inp out res))
           else if ext \<in> videoExts \<or> startsWith mime ''video/'' then
             await (processVideo env inp out) (\<lambda>res. ret (success_result inp out res))
           else ret (unsupported_result inp))
          (\<lambda>err. ret (caught_result inp out err))))"

section \<open>The output path resolver (outputStrategy.ts)\<close>

definition ensureDir :: "'w env \<Rightarrow> string \<Rightarrow> ('w, unit) io" where
  "ensureDir env d = fs_mkdir_recursive env d"

definition resolvePaths :: "'w env \<Rightarrow> string \<Rightarrow> ProcessOptions \<Rightarrow> ('w, ResolvedPath) io" where
  "resolvePaths env inp opts =
     (let parsed = path_parse env inp;
          suffix = (case copySuffix opts of Some s \<Rightarrow> s | None \<Rightarrow> ''-clean'')
      in if truthy_bool (overwriteSource opts) then
           ret \<lparr>rp_outputPath =
                  path_join env (pp_dir parsed)
                    (''.'' @ pp_name parsed @ suffix @ ''_tmp'' @ pp_ext parsed),
                rp_backupPath = None\<rparr>
         else
           (case outputDir opts of
              None \<Rightarrow> throw (JsError MSG_NO_OUTPUT_DIR)
            | Some d \<Rightarrow>
                if d = [] then throw (JsError MSG_NO_OUTPUT_DIR)
                else
                  await (ensureDir env d) (\<lambda>_.
                  ret \<lparr>rp_outputPath = path_join env d (pp_name parsed @ suffix @ pp_ext parsed),
                       rp_backupPath = None\<rparr>)))"

section \<open>The batch handler (main.ts, "process-files")\<close>

record Payload =
  items :: "ProcessItem option list"
  options :: ProcessOptions

definition invalid_path_result :: ProcessResult where
  "invalid_path_result =
     \<lparr>inputPath = [], outputPath = None, status = StatusError, removed = None, ftype = None,
      message = Some MSG_INVALID_PATH\<rparr>"

definition failed_result :: "string \<Rightarrow> exn \<Rightarrow> ProcessResult" where
  "failed_result p err =
     \<lparr>inputPath = p, outputPath = None, status = StatusError, removed = None, ftype = None,
      message = Some (err_message err)\<rparr>"

text \<open>The \<open>try\<close> block of the loop, up to \<open>results.push(result)\<close>.\<close>

definition item_try ::
  "'w env \<Rightarrow> ProcessOptions \<Rightarrow> string \<Rightarrow> ProcessResult list \<Rightarrow> ('w, ProcessResult list) io" where
  "item_try env opts p results =
     await (resolvePaths env p opts) (\<lambda>rp.
     await (fs_stat env p) (\<lambda>stat.
     await (if truthy_str (rp_backupPath rp)
            then (case rp_backupPath rp of Some b \<Rightarrow> fs_copyFile env p b | None \<Rightarrow> ret ())
            else ret ()) (\<lambda>_.
     await (processByType env p (rp_outputPath rp)) (\<lambda>result.
     await (if status result = StatusSuccess then
              await (fs_utimes env (rp_outputPath rp) (st_atime stat) (st_mtime stat)) (\<lambda>_.
                if truthy_bool (overwriteSource opts)
                then await (fs_rename env (rp_outputPath rp) p) (\<lambda>_. ret (result\<lparr>outputPath := Some p\<rparr>))
                else ret result)
            else ret result) (\<lambda>result'.
     ret (results @ [result']))))))"

text \<open>The inner \<open>try\<close> of the \<open>catch\<close> block: the clean-up of the temporary file.\<close>

definition cleanup :: "'w env \<Rightarrow> ProcessOptions \<Rightarrow> string \<Rightarrow> ('w, unit) io" where
  "cleanup env opts p =
     try_catch
       (await (resolvePaths env p opts) (\<lambda>rp.
          if truthy_bool (overwriteSource opts)
          then await (\<lambda>w. (Inr (fs_existsSync env (rp_outputPath rp) w), w)) (\<lambda>there.
                 if there then fs_unlink env (rp_outputPath rp) else ret ())
          else ret ()))
       (\<lambda>e. ret ())"

definition item_body ::
  "'w env \<Rightarrow> ProcessOptions \<Rightarrow> ProcessItem option \<Rightarrow> ProcessResult list \<Rightarrow> ('w, ProcessResult list) io" where
  "item_body env opts item results =
     (case item of
        None \<Rightarrow> ret (results @ [invalid_path_result])
      | Some it \<Rightarrow>
          if path it = [] then ret (results @ [invalid_path_result])
          else
            try_catch (item_try env opts (path it) results)
              (\<lambda>err. await (cleanup env opts (path it)) (\<lambda>_.
                 ret (results @ [failed_result (path it) err]))))"

definition process_files :: "'w env \<Rightarrow> Payload \<Rightarrow> ('w, ProcessResult list) io" where
  "process_files env payload = for_of (items payload) (item_body env (options payload)) []"

section \<open>A small environment to run the model in\<close>

text \<open>
  The examples below run the model in a simulated environment: a file system that is a
  table from paths to files and directories, POSIX paths without trailing slashes and
  without \<open>..\<close> segments, content sniffing by magic bytes, and an \<open>ffmpeg\<close> whose outcome
  is chosen by the scenario.
\<close>

datatype sim_node = SimFile content nat nat | SimDir

type_synonym sim_world = "(string \<times> sim_node) list"

datatype ffmpeg_outcome = RemuxDone | FailsAfterOpeningOutput | FailsBeforeOutput

definition ENOENT :: exn where
  "ENOENT = JsError ''ENOENT: no such file or directory''"

definition EISDIR :: exn where
  "EISDIR = JsError ''EISDIR: illegal operation on a directory''"

definition EEXIST :: exn where
  "EEXIST = JsError ''EEXIST: file already exists''"

definition split_ext :: "string \<Rightarrow> string \<times> string" where
  "split_ext b =
     (case lastIndexOf b (CHR ''.'') of
        Some i \<Rightarrow> if 0 < i \<and> b \<noteq> ''..'' then (take i b, drop i b) else (b, [])
      | None \<Rightarrow> (b, []))"

definition sim_parse :: "string \<Rightarrow> ParsedPath" where
  "sim_parse p =
     (let root = (if p \<noteq> [] \<and> hd p = CHR ''/'' then ''/'' else []);
          d = (case lastIndexOf p (CHR ''/'') of
                 Some i \<Rightarrow> if i = 0 then ''/'' else take i p
               | None \<Rightarrow> []);
          b = (case lastIndexOf p (CHR ''/'') of Some i \<Rightarrow> drop (Suc i) p | None \<Rightarrow> p)
      in \<lparr>pp_root = root, pp_dir = d, pp_base = b, pp_ext = snd (split_ext b),
          pp_name = fst (split_ext b)\<rparr>)"

definition sim_join :: "string \<Rightarrow> string \<Rightarrow> string" where
  "sim_join d f =
     (if d = [] then f else if f = [] then d
      else if ends_with_slash d then d @ f else d @ ''/'' @ f)"

definition sim_mkdir :: "string \<Rightarrow> (sim_world, unit) io" where
  "sim_mkdir d w =
     (case map_of w d of
        Some (SimFile c a m) \<Rightarrow> (Inl EEXIST, w)
      | Some SimDir \<Rightarrow> (Inr (), w)
      | None \<Rightarrow> (Inr (), AList.update d SimDir w))"

definition sim_stat :: "string \<Rightarrow> (sim_world, Stats) io" where
  "sim_stat p w =
     (case map_of w p of
        Some (SimFile c a m) \<Rightarrow> (Inr \<lparr>st_atime = a, st_mtime = m\<rparr>, w)
      | Some SimDir \<Rightarrow> (Inr \<lparr>st_atime = 0, st_mtime = 0\<rparr>, w)
      | None \<Rightarrow> (Inl ENOENT, w))"

definition sim_readFile :: "string \<Rightarrow> (sim_world, content) io" where
  "sim_readFile p w =
     (case map_of w p of
        Some (SimFile c a m) \<Rightarrow> (Inr c, w)
      | Some SimDir \<Rightarrow> (Inl EISDIR, w)
      | None \<Rightarrow> (Inl ENOENT, w))"

definition sim_writeFile :: "nat \<Rightarrow> string \<Rightarrow> content \<Rightarrow> (sim_world, unit) io" where
  "sim_writeFile now p c w =
     (case map_of w p of
        Some SimDir \<Rightarrow> (Inl EISDIR, w)
      | _ \<Rightarrow> (Inr (), AList.update p (SimFile c now now) w))"

definition sim_copyFile :: "nat \<Rightarrow> string \<Rightarrow> string \<Rightarrow> (sim_world, unit) io" where
  "sim_copyFile now src dst = await (sim_readFile src) (\<lambda>c. sim_writeFile now dst c)"

definition sim_utimes :: "string \<Rightarrow> nat \<Rightarrow> nat \<Rightarrow> (sim_world, unit) io" where
  "sim_utimes p a m w =
     (case map_of w p of
        Some (SimFile c a0 m0) \<Rightarrow> (Inr (), AList.update p (SimFile c a m) w)
      | Some SimDir \<Rightarrow> (Inr (), w)
      | None \<Rightarrow> (Inl ENOENT, w))"

definition sim_rename :: "string \<Rightarrow> string \<Rightarrow> (sim_world, unit) io" where
  "sim_rename src dst w =
     (case map_of w src of
        Some n \<Rightarrow> if src = dst then (Inr (), w)
                  else (Inr (), AList.update dst n (AList.delete src w))
      | None \<Rightarrow> (Inl ENOENT, w))"

definition sim_existsSync :: "string \<Rightarrow> sim_world \<Rightarrow> bool" where
  "sim_existsSync p w = (map_of w p \<noteq> None)"

definition sim_unlink :: "string \<Rightarrow> (sim_world, unit) io" where
  "sim_unlink p w =
     (case map_of w p of
        Some (SimFile c a m) \<Rightarrow> (Inr (), AList.delete p w)
      | Some SimDir \<Rightarrow> (Inl EISDIR, w)
      | None \<Rightarrow> (Inl ENOENT, w))"

text \<open>
  Content sniffing as file-type does it, for the formats of the examples: the PNG
  signature, \<open>%PDF\<close>, the \<open>ftyp\<close> box of MP4, the EBML header of WebM, the compound-file
  signature of the legacy office formats; an archive is reported as the OOXML type of
  the first entry that lies in \<open>word/\<close>, \<open>ppt/\<close> or \<open>xl/\<close>, and as \<open>application/zip\<close>
  when there is none.
\<close>

definition PNG_MAGIC :: string where
  "PNG_MAGIC = [CHR 0x89] @ ''PNG'' @ [CHR 0x0D, CHR 0x0A, CHR 0x1A, CHR 0x0A]"

definition EBML_MAGIC :: string where
  "EBML_MAGIC = [CHR 0x1A, CHR 0x45, CHR 0xDF, CHR 0xA3]"

definition CFB_MAGIC :: string where
  "CFB_MAGIC = [CHR 0xD0, CHR 0xCF, CHR 0x11, CHR 0xE0, CHR 0xA1, CHR 0xB1, CHR 0x1A, CHR 0xE1]"

definition MIME_DOCX :: string where
  "MIME_DOCX = ''application/vnd.openxmlformats-officedocument.wordprocessingml.document''"

definition MIME_PPTX :: string where
  "MIME_PPTX = ''application/vnd.openxmlformats-officedocument.presentationml.presentation''"

definition MIME_XLSX :: string where
  "MIME_XLSX = ''application/vnd.openxmlformats-officedocument.spreadsheetml.sheet''"

fun sniff_zip :: "StoredEntry list \<Rightarrow> string" where
  "sniff_zip [] = ''application/zip''"
| "sniff_zip (e # es) =
     (if startsWith (se_name e) ''word/'' then MIME_DOCX
      else if startsWith (se_name e) ''ppt/'' then MIME_PPTX
      else if startsWith (se_name e) ''xl/'' then MIME_XLSX
      else sniff_zip es)"

definition sniff :: "content \<Rightarrow> string option" where
  "sniff c =
     (case c of
        ZipData a \<Rightarrow> Some (sniff_zip (ar_entries a))
      | Raw b \<Rightarrow>
          if startsWith b PNG_MAGIC then Some ''image/png''
          else if startsWith b ''%PDF'' then Some ''application/pdf''
          else if startsWith (drop 4 b) ''ftyp'' then Some ''video/mp4''
          else if startsWith b EBML_MAGIC then Some ''video/webm''
          else if startsWith b CFB_MAGIC then Some ''application/x-cfb''
          else None)"

definition sim_fileTypeFromFile :: "string \<Rightarrow> (sim_world, string option) io" where
  "sim_fileTypeFromFile p = await (sim_readFile p) (\<lambda>c. ret (sniff c))"

definition sim_sharp_metadata :: "string \<Rightarrow> (sim_world, SharpMetadata) io" where
  "sim_sharp_metadata p =
     await (sim_readFile p) (\<lambda>c.
       if sniff c = Some ''image/png'' then ret \<lparr>sm_format = Some ''png'', sm_icc = IccUndefined\<rparr>
       else throw (JsError ''Input file contains unsupported image format''))"

definition sim_sharp_toBuffer :: "string \<Rightarrow> string option \<Rightarrow> string \<Rightarrow> (sim_world, bytes) io" where
  "sim_sharp_toBuffer p icc fmt =
     await (sim_readFile p) (\<lambda>c.
       if sniff c = Some ''image/png'' then ret (PNG_MAGIC @ ''-pixels-only'')
       else throw (JsError ''Input file contains unsupported image format''))"

definition sim_pdf_load :: "content \<Rightarrow> exn + PdfDoc" where
  "sim_pdf_load c =
     (if sniff c = Some ''application/pdf''
      then Inr \<lparr>pdf_title = None, pdf_author = None, pdf_subject = None, pdf_keywords = None,
                pdf_producer = None, pdf_creator = None, pdf_language = None,
                pdf_catalog_metadata = False, pdf_page_annots = []\<rparr>
      else Inl (JsError ''Failed to parse PDF document''))"

definition sim_pdf_save :: "PdfDoc \<Rightarrow> exn + content" where
  "sim_pdf_save d = Inr (Raw ''%PDF-1.7'')"

definition sim_ffmpeg_save ::
  "ffmpeg_outcome \<Rightarrow> nat \<Rightarrow> string \<Rightarrow> string list \<Rightarrow> string \<Rightarrow> (sim_world, unit) io" where
  "sim_ffmpeg_save outcome now src opts dst =
     await (sim_readFile src) (\<lambda>c.
       case outcome of
         RemuxDone \<Rightarrow> sim_writeFile now dst c
       | FailsAfterOpeningOutput \<Rightarrow>
           await (sim_writeFile now dst (Raw [])) (\<lambda>_.
             throw (JsError ''ffmpeg exited with code 1: Could not write header''))
       | FailsBeforeOutput \<Rightarrow>
           throw (JsError ''ffmpeg exited with code 1: Invalid data found when processing input''))"

definition sim_env :: "ffmpeg_outcome \<Rightarrow> nat \<Rightarrow> sim_world env" where
  "sim_env outcome now =
     \<lparr>path_parse = sim_parse, path_join = sim_join, date_now = now,
      fs_mkdir_recursive = sim_mkdir, fs_stat = sim_stat, fs_copyFile = sim_copyFile now,
      fs_utimes = sim_utimes, fs_rename = sim_rename, fs_existsSync = sim_existsSync,
      fs_unlink = sim_unlink, fs_readFile = sim_readFile, fs_writeFile = sim_writeFile now,
      fileTypeFromFile = sim_fileTypeFromFile, sharp_metadata = sim_sharp_metadata,
      sharp_toBuffer = sim_sharp_toBuffer, pdf_load = sim_pdf_load, pdf_save = sim_pdf_save,
      ffmpeg_save = sim_ffmpeg_save outcome now, replace_trackRevisions = (\<lambda>xml. xml)\<rparr>"




subsection \<open>Example worlds and options\<close>


definition only_a_directory :: sim_world where
  "only_a_directory = [(''/in/dir'', SimDir)]"



definition overwrite_options :: ProcessOptions where
  "overwrite_options = \<lparr>outputDir = None, copySuffix = None, overwriteSource = Some True\<rparr>"



definition legacy_document :: sim_world where
  "legacy_document =
     [(''/in/report.doc'', SimFile (Raw (CFB_MAGIC @ ''...'')) 1 2)]"

definition one_clip :: sim_world where
  "one_clip = [(''/in/clip.webm'', SimFile (Raw ''0000ftypisom...h264...'') 5 6)]"














section \<open>Notions used to state the properties\<close>




text \<open>
  The \<open>try\<close> block of the loop without its last statement: the result that
  \<open>results.push(result)\<close> is about to push.
\<close>

definition item_outcome :: "'w env \<Rightarrow> ProcessOptions \<Rightarrow> string \<Rightarrow> ('w, ProcessResult) io" where
  "item_outcome env opts p =
     await (resolvePaths env p opts) (\<lambda>rp.
     await (fs_stat env p) (\<lambda>stat.
     await (if truthy_str (rp_backupPath rp)
            then (case rp_backupPath rp of Some b \<Rightarrow> fs_copyFile env p b | None \<Rightarrow> ret ())
            else ret ()) (\<lambda>_.
     await (processByType env p (rp_outputPath rp)) (\<lambda>result.
       if status result = StatusSuccess then
         await (fs_utimes env (rp_outputPath rp) (st_atime stat) (st_mtime stat)) (\<lambda>_.
           if truthy_bool (overwriteSource opts)
           then await (fs_rename env (rp_outputPath rp) p) (\<lambda>_. ret (result\<lparr>outputPath := Some p\<rparr>))
           else ret result)
       else ret result))))"

text \<open>
  The five categories of the dispatcher, in the order of its \<open>if\<close> chain, with the two
  signals each branch tests: the extension set and the sniffed MIME type (the office
  branch tests no MIME type).
\<close>

datatype category = CatImage | CatPdf | CatOffice | CatZip | CatVideo

definition category_order :: "category list" where
  "category_order = [CatImage, CatPdf, CatOffice, CatZip, CatVideo]"

definition exts_of :: "category \<Rightarrow> string set" where
  "exts_of c =
     (case c of CatImage \<Rightarrow> imageExts | CatPdf \<Rightarrow> pdfExts | CatOffice \<Rightarrow> officeExts
      | CatZip \<Rightarrow> zipExts | CatVideo \<Rightarrow> videoExts)"

definition mime_signal :: "category \<Rightarrow> string \<Rightarrow> bool" where
  "mime_signal c mime =
     (case c of
        CatImage \<Rightarrow> startsWith mime ''image/''
      | CatPdf \<Rightarrow> mime = ''application/pdf''
      | CatOffice \<Rightarrow> False
      | CatZip \<Rightarrow> mime = ''application/zip''
      | CatVideo \<Rightarrow> startsWith mime ''video/'')"

definition category_test :: "category \<Rightarrow> string \<Rightarrow> string \<Rightarrow> bool" where
  "category_test c ext mime = (ext \<in> exts_of c \<or> mime_signal c mime)"

definition earlier :: "category \<Rightarrow> category list" where
  "earlier c = takeWhile (\<lambda>d. d \<noteq> c) category_order"

definition sanitizer :: "'w env \<Rightarrow> category \<Rightarrow> string \<Rightarrow> string \<Rightarrow> ('w, Report) io" where
  "sanitizer env c =
     (case c of CatImage \<Rightarrow> processImage env | CatPdf \<Rightarrow> processPdf env
      | CatOffice \<Rightarrow> processOffice env | CatZip \<Rightarrow> processZip env
      | CatVideo \<Rightarrow> processVideo env)"

text \<open>One branch of the dispatcher inside its \<open>try\<close>/\<open>catch\<close>.\<close>

definition run_sanitizer :: "'w env \<Rightarrow> category \<Rightarrow> string \<Rightarrow> string \<Rightarrow> ('w, ProcessResult) io" where
  "run_sanitizer env c inp out =
     try_catch (await (sanitizer env c inp out) (\<lambda>res. ret (success_result inp out res)))
       (\<lambda>err. ret (caught_result inp out err))"

definition ext_of :: "'w env \<Rightarrow> string \<Rightarrow> string" where
  "ext_of env inp = toLowerCase (pp_ext (path_parse env inp))"

definition mime_of :: "string option \<Rightarrow> string" where
  "mime_of detected = (case detected of Some m \<Rightarrow> m | None \<Rightarrow> [])"

text \<open>
  The shape \<open>JSZip.loadAsync\<close> gives an instance: one entry per key, named by its key,
  a directory exactly when the name ends with a slash.
\<close>

definition loaded_shape :: "JSZip \<Rightarrow> bool" where
  "loaded_shape z =
     (distinct (map fst (zip_files z)) \<and>
      list_all (\<lambda>kv. zo_name (snd kv) = fst kv \<and> zo_dir (snd kv) = ends_with_slash (fst kv))
        (zip_files z))"







section \<open>Basic facts about the effects\<close>

lemma await_ret [simp]: "await (ret a) f = f a"
  by (simp add: await_def ret_def)

lemma await_throw [simp]: "await (throw e) f = throw e"
  by (simp add: await_def throw_def)

lemma try_catch_ret [simp]: "try_catch (ret a) h = ret a"
  by (simp add: try_catch_def ret_def)

lemma try_catch_throw [simp]: "try_catch (throw e) h = h e"
  by (simp add: try_catch_def throw_def)

lemma await_assoc: "await (await m f) g = await m (\<lambda>a. await (f a) g)"
  by (auto simp: await_def fun_eq_iff split: prod.splits sum.splits)

lemma await_Inr_iff:
  "(await m f w = (Inr b, w')) = (\<exists>a w1. m w = (Inr a, w1) \<and> f a w1 = (Inr b, w'))"
  by (auto simp: await_def split: prod.splits sum.splits)

lemma await_Inl_iff:
  "(await m f w = (Inl e, w')) =
     (m w = (Inl e, w') \<or> (\<exists>a w1. m w = (Inr a, w1) \<and> f a w1 = (Inl e, w')))"
  by (auto simp: await_def split: prod.splits sum.splits)

lemma await_Inr: "m w = (Inr a, w') \<Longrightarrow> await m f w = f a w'"
  by (simp add: await_def)

lemma await_Inl: "m w = (Inl e, w') \<Longrightarrow> await m f w = (Inl e, w')"
  by (simp add: await_def)


text \<open>The definitions to unfold when an example is run.\<close>

lemmas sim_defs =
  sim_env_def sim_parse_def sim_join_def split_ext_def sim_mkdir_def sim_stat_def
  sim_readFile_def sim_writeFile_def sim_copyFile_def sim_utimes_def sim_rename_def
  sim_existsSync_def sim_unlink_def sniff_def sim_fileTypeFromFile_def sim_sharp_metadata_def
  sim_sharp_toBuffer_def sim_pdf_load_def sim_pdf_save_def sim_ffmpeg_save_def
  await_def ret_def throw_def try_catch_def pure_step_def startsWith_def PNG_MAGIC_def EBML_MAGIC_def CFB_MAGIC_def
  MIME_DOCX_def MIME_PPTX_def MIME_XLSX_def
  KELVIN_SIGN_def lower_char_def ext_of_def mime_of_def ends_with_slash_def

lemmas category_defs =
  category_test_def exts_of_def mime_signal_def imageExts_def pdfExts_def officeExts_def
  zipExts_def videoExts_def earlier_def category_order_def



section \<open>The dispatcher: routing and failures\<close>

text \<open>
  The \<open>if\<close> chain of \<open>processByType\<close> picks the first category of the fixed order whose
  test holds, and runs that category's sanitizer inside the \<open>try\<close>; the content sniffing
  happens before the \<open>try\<close>.
\<close>

lemma processByType_route:
  "processByType env inp out w =
     (case fileTypeFromFile env inp w of
        (Inl e, w1) \<Rightarrow> (Inl e, w1)
      | (Inr detected, w1) \<Rightarrow>
          (case find (\<lambda>c. category_test c (ext_of env inp) (mime_of detected)) category_order of
             None \<Rightarrow> (Inr (unsupported_result inp), w1)
           | Some c \<Rightarrow> run_sanitizer env c inp out w1))"
  by (simp add: processByType_def Let_def await_def try_catch_def ret_def category_order_def
      category_test_def exts_of_def mime_signal_def sanitizer_def run_sanitizer_def ext_of_def
      mime_of_def split: prod.splits sum.splits option.splits)

lemma run_sanitizer_total:
  "run_sanitizer env c inp out w =
     (case sanitizer env c inp out w of
        (Inl e, w') \<Rightarrow> (Inr (caught_result inp out e), w')
      | (Inr res, w') \<Rightarrow> (Inr (success_result inp out res), w'))"
  by (simp add: run_sanitizer_def try_catch_def await_def ret_def split: prod.splits sum.splits)


text \<open>
  C10.  After the content sniffing, \<open>processByType\<close> runs the sanitizer of the first
  category, in the fixed order image, pdf, office, zip, video, whose test holds, and only
  that one: its outcome is the outcome of that sanitizer inside the \<open>try\<close>.  The office
  test reads the extension only.  A \<open>.zip\<close> extension with sniffed type \<open>image/png\<close>
  passes the zip test and yet goes to the image sanitizer.
\<close>

theorem processByType_first_match_wins:
  "processByType env inp out w =
     (case fileTypeFromFile env inp w of
        (Inl e, w1) \<Rightarrow> (Inl e, w1)
      | (Inr detected, w1) \<Rightarrow>
          (case find (\<lambda>c. category_test c (ext_of env inp) (mime_of detected)) category_order of
             None \<Rightarrow> (Inr (unsupported_result inp), w1)
           | Some c \<Rightarrow> run_sanitizer env c inp out w1))
   \<and> category_order = [CatImage, CatPdf, CatOffice, CatZip, CatVideo]
   \<and> category_test CatOffice ext mime = (ext \<in> officeExts)
   \<and> category_test CatZip ''.zip'' ''image/png''
   \<and> find (\<lambda>c. category_test c ''.zip'' ''image/png'') category_order = Some CatImage"
proof -
  have a: "category_test CatOffice ext mime = (ext \<in> officeExts)"
    by (simp add: category_test_def exts_of_def mime_signal_def)
  have b: "category_test CatZip ''.zip'' ''image/png''"
    by (simp add: category_test_def exts_of_def zipExts_def)
  have c: "category_test CatImage ''.zip'' ''image/png''"
    by (simp add: category_test_def mime_signal_def startsWith_def)
  have d: "find (\<lambda>c. category_test c ''.zip'' ''image/png'') category_order = Some CatImage"
    using c by (simp add: category_order_def)
  show ?thesis
    using a b d processByType_route[of env inp out w] by (simp add: category_order_def)
qed





text \<open>
  C3 as amended.  When the content sniffing returns, \<open>processByType\<close> returns a result
  and never throws: an exception of the chosen sanitizer becomes the result
  \<open>{inputPath, outputPath, status: 'error', message}\<close>.  When the sniffing itself throws
  (it runs before the \<open>try\<close>), \<open>processByType\<close> throws that exception to its caller.
\<close>

theorem processByType_catches_sanitizer_failures:
  "(case fileTypeFromFile env inp w of
      (Inl e, w1) \<Rightarrow> processByType env inp out w = (Inl e, w1)
    | (Inr detected, w1) \<Rightarrow>
        (\<exists>r w2. processByType env inp out w = (Inr r, w2) \<and> inputPath r = inp \<and>
           (case find (\<lambda>c. category_test c (ext_of env inp) (mime_of detected)) category_order of
              None \<Rightarrow> r = unsupported_result inp \<and> w2 = w1
            | Some c \<Rightarrow>
                (case sanitizer env c inp out w1 of
                   (Inl err, w') \<Rightarrow>
                     r = \<lparr>inputPath = inp, outputPath = Some out, status = StatusError,
                          removed = None, ftype = None, message = Some (err_message err)\<rparr>
                     \<and> w2 = w'
                 | (Inr res, w') \<Rightarrow> r = success_result inp out res \<and> w2 = w'))))"
  by (auto simp: processByType_route run_sanitizer_total caught_result_def success_result_def
        unsupported_result_def split: prod.splits sum.splits option.splits)

text \<open>
  C3 as stated fails: for a path that is a directory, reading the content for sniffing
  fails, and \<open>processByType\<close> throws instead of returning an error result.
\<close>

theorem processByType_propagates_sniffing_failure:
  "processByType (sim_env RemuxDone 9) ''/in/dir'' ''/out/dir-clean'' only_a_directory
     = (Inl EISDIR, only_a_directory)"
  by (simp add: processByType_route sim_defs only_a_directory_def)

section \<open>The batch handler: one result per item\<close>


text \<open>
  The \<open>try\<close> block computes one result and pushes it; the result does not depend on
  the results pushed so far.
\<close>

lemma item_try_outcome:
  "item_try env opts p results = await (item_outcome env opts p) (\<lambda>r. ret (results @ [r]))"
  by (simp add: item_try_def item_outcome_def await_assoc)










section \<open>The output path resolver\<close>

subsection \<open>POSIX paths\<close>

lemma lastIndexOf_None_iff: "lastIndexOf xs c = None \<longleftrightarrow> c \<notin> set xs"
  by (induction xs) (auto split: option.splits)

lemma lastIndexOf_absent: "c \<notin> set xs \<Longrightarrow> lastIndexOf xs c = None"
  by (simp add: lastIndexOf_None_iff)



lemma lastIndexOf_head: "c \<notin> set xs \<Longrightarrow> lastIndexOf (c # xs) c = Some 0"
  by (simp add: lastIndexOf_absent)
















section \<open>Backups\<close>

text \<open>
  No function of the model but the handler's backup branch calls \<open>fs.copyFile\<close>, so
  replacing that capability changes nothing as soon as the branch is never taken.
\<close>

lemma resolvePaths_no_backup:
  "resolvePaths env inp opts w = (Inr rp, w') \<Longrightarrow> rp_backupPath rp = None"
  by (auto simp: resolvePaths_def Let_def ret_def throw_def await_Inr_iff
        split: if_splits option.splits)

lemma office_edit_copyFile: "office_edit (env\<lparr>fs_copyFile := f\<rparr>) = office_edit env"
  by (simp add: fun_eq_iff office_edit_def processDocx_def processXlsx_def processPptx_def
        clear_each_def clearIfExists_def stripTrackRevisions_def Let_def
      cong: option.case_cong if_cong)

lemma sanitizer_copyFile: "sanitizer (env\<lparr>fs_copyFile := f\<rparr>) c = sanitizer env c"
  by (cases c)
     (simp_all add: fun_eq_iff sanitizer_def processImage_def processPdf_def processOffice_def
        processZip_def processVideo_def office_edit_copyFile Let_def cong: if_cong)

lemma processByType_copyFile:
  "processByType (env\<lparr>fs_copyFile := f\<rparr>) = processByType env"
  by (simp add: fun_eq_iff processByType_route run_sanitizer_def sanitizer_copyFile ext_of_def
      cong: prod.case_cong sum.case_cong option.case_cong)

lemma resolvePaths_copyFile: "resolvePaths (env\<lparr>fs_copyFile := f\<rparr>) = resolvePaths env"
  by (simp add: fun_eq_iff resolvePaths_def ensureDir_def Let_def cong: option.case_cong if_cong)

lemma item_outcome_copyFile:
  "item_outcome (env\<lparr>fs_copyFile := f\<rparr>) opts p w = item_outcome env opts p w"
proof (cases "resolvePaths env p opts w")
  case (Pair res w1)
  show ?thesis
  proof (cases res)
    case (Inl e)
    with Pair show ?thesis
      by (simp add: item_outcome_def resolvePaths_copyFile await_Inl)
  next
    case (Inr rp)
    with Pair have "rp_backupPath rp = None" by (auto dest: resolvePaths_no_backup)
    with Pair Inr show ?thesis
      by (simp add: item_outcome_def resolvePaths_copyFile processByType_copyFile await_Inr
            truthy_str_def cong: if_cong)
  qed
qed

lemma item_body_copyFile:
  "item_body (env\<lparr>fs_copyFile := f\<rparr>) opts = item_body env opts"
proof -
  have c: "cleanup (env\<lparr>fs_copyFile := f\<rparr>) opts p = cleanup env opts p" for p
    by (simp add: cleanup_def resolvePaths_copyFile cong: if_cong)
  have t: "item_try (env\<lparr>fs_copyFile := f\<rparr>) opts p results = item_try env opts p results"
    for p results
    by (simp add: item_try_outcome fun_eq_iff await_def item_outcome_copyFile)
  show ?thesis
    by (simp add: item_body_def fun_eq_iff c t split: option.splits)
qed

text \<open>
  C9.  \<open>resolvePaths\<close> never returns a record with a \<open>backupPath\<close>, and the handler
  behaves the same whatever \<open>fs.copyFile\<close> would do: the backup branch is never run and
  no backup file is made, in either mode.
\<close>

theorem no_backup_is_ever_made:
  "fst (resolvePaths env inp opts w) \<noteq> Inr \<lparr>rp_outputPath = q, rp_backupPath = Some b\<rparr>
   \<and> process_files (env\<lparr>fs_copyFile := f\<rparr>) payload w = process_files env payload w"
proof -
  have "fst (resolvePaths env inp opts w) \<noteq> Inr \<lparr>rp_outputPath = q, rp_backupPath = Some b\<rparr>"
  proof
    assume a: "fst (resolvePaths env inp opts w) = Inr \<lparr>rp_outputPath = q, rp_backupPath = Some b\<rparr>"
    then have "resolvePaths env inp opts w
                = (Inr \<lparr>rp_outputPath = q, rp_backupPath = Some b\<rparr>, snd (resolvePaths env inp opts w))"
      by (metis prod.collapse)
    then show False by (auto dest: resolvePaths_no_backup)
  qed
  then show ?thesis
    by (simp add: process_files_def item_body_copyFile)
qed

section \<open>Legacy office documents\<close>

text \<open>
  The copy of \<open>processOffice\<close> with the check rejects a legacy extension before it reads
  anything, with a message that names the extension and the formats to convert to.  The
  copy of part_005 reads and parses whatever the extension is.
\<close>

lemma processOffice_rejects_legacy:
  "ext_of env inp \<in> {''.doc'', ''.xls'', ''.ppt''} \<Longrightarrow>
   processOffice env inp out w = (Inl (JsError (legacy_office_message (ext_of env inp))), w)"
  by (simp add: processOffice_def ext_of_def Let_def throw_def)

lemma legacy_office_message_names_conversion:
  "\<exists>pre post. legacy_office_message ext = pre @ ext @ post
     \<and> (\<exists>a b. post = a @ ''(.docx, .xlsx, .pptx)'' @ b)"
  unfolding legacy_office_message_def by blast

lemma processOffice_part_005_parses_first:
  "processOffice_part_005 env inp out w =
     (case fs_readFile env inp w of
        (Inl e, w1) \<Rightarrow> (Inl e, w1)
      | (Inr buffer, w1) \<Rightarrow>
          (case loadAsync buffer of
             Inl e \<Rightarrow> (Inl e, w1)
           | Inr zp \<Rightarrow> office_edit env (ext_of env inp) out zp w1))"
  by (simp add: processOffice_part_005_def await_def pure_step_def ext_of_def
        split: prod.splits sum.splits)

text \<open>
  C6, on the code.  For \<open>report.doc\<close>, an OLE2 file, the \<open>processOffice\<close> of part_005
  reads the file, hands it to \<open>JSZip.loadAsync\<close> and fails with the message of JSZip; the
  \<open>processOffice\<close> of part_004 rejects the same file with the conversion message, the
  world untouched.
\<close>

theorem legacy_document_is_parsed_by_part_005:
  "ext_of (sim_env RemuxDone 9) ''/in/report.doc'' = ''.doc''
   \<and> processOffice_part_005 (sim_env RemuxDone 9) ''/in/report.doc'' ''/out/report-clean.doc''
        legacy_document = (Inl (JsError JSZIP_NOT_A_ZIP), legacy_document)
   \<and> processOffice (sim_env RemuxDone 9) ''/in/report.doc'' ''/out/report-clean.doc''
        legacy_document = (Inl (JsError (legacy_office_message ''.doc'')), legacy_document)"
proof -
  have e: "ext_of (sim_env RemuxDone 9) ''/in/report.doc'' = ''.doc''"
    by (simp add: sim_defs Let_def)
  have a: "processOffice_part_005 (sim_env RemuxDone 9) ''/in/report.doc'' ''/out/report-clean.doc''
        legacy_document = (Inl (JsError JSZIP_NOT_A_ZIP), legacy_document)"
    by (simp add: processOffice_part_005_parses_first loadAsync_def legacy_document_def
          sim_env_def sim_readFile_def)
  have b: "processOffice (sim_env RemuxDone 9) ''/in/report.doc'' ''/out/report-clean.doc''
        legacy_document = (Inl (JsError (legacy_office_message ''.doc'')), legacy_document)"
    using processOffice_rejects_legacy[of "sim_env RemuxDone 9" "''/in/report.doc''"] e by simp
  show ?thesis using e a b by simp
qed

section \<open>Overwrite mode and the temporary file\<close>

text \<open>
  When the dispatcher returns a result whose status is not success, the handler pushes
  it as it is: the \<open>catch\<close> block, which holds the clean-up, is not entered, and the
  world is the one the dispatcher left.
\<close>

lemma item_body_pushes_error_result_as_is:
  assumes "p \<noteq> []"
    and "resolvePaths env p opts w = (Inr \<lparr>rp_outputPath = out, rp_backupPath = b\<rparr>, w1)"
    and "fs_stat env p w1 = (Inr st, w2)"
    and "processByType env p out w2 = (Inr r, w3)"
    and "status r \<noteq> StatusSuccess"
  shows "item_body env opts (Some \<lparr>path = p\<rparr>) results w = (Inr (results @ [r]), w3)"
proof -
  have "b = None" using resolvePaths_no_backup[OF assms(2)] by simp
  then have "item_outcome env opts p w = (Inr r, w3)"
    using assms by (simp add: item_outcome_def await_def truthy_str_def ret_def)
  then show ?thesis
    using assms(1) by (simp add: item_body_def item_try_outcome try_catch_def await_def ret_def)
qed

text \<open>
  C4, on the code.  In overwrite mode, a remux that opens its output and then fails
  leaves the item with an error result and the temporary sibling still on disk.
\<close>

theorem failed_remux_leaves_temporary_file:
  "process_files (sim_env FailsAfterOpeningOutput 9)
     \<lparr>items = [Some \<lparr>path = ''/in/clip.webm''\<rparr>], options = overwrite_options\<rparr> one_clip
   = (Inr [\<lparr>inputPath = ''/in/clip.webm'', outputPath = Some ''/in/.clip-clean_tmp.webm'',
            status = StatusError, removed = None, ftype = None,
            message = Some ''ffmpeg exited with code 1: Could not write header''\<rparr>],
      [(''/in/clip.webm'', SimFile (Raw ''0000ftypisom...h264...'') 5 6),
       (''/in/.clip-clean_tmp.webm'', SimFile (Raw []) 9 9)])"
proof -
  let ?E = "sim_env FailsAfterOpeningOutput 9"
  let ?tmp = "''/in/.clip-clean_tmp.webm''"
  have rp: "resolvePaths ?E ''/in/clip.webm'' overwrite_options one_clip
              = (Inr \<lparr>rp_outputPath = ?tmp, rp_backupPath = None\<rparr>, one_clip)"
    by (simp add: resolvePaths_def overwrite_options_def truthy_bool_def sim_defs Let_def)
  have st: "fs_stat ?E ''/in/clip.webm'' one_clip = (Inr \<lparr>st_atime = 5, st_mtime = 6\<rparr>, one_clip)"
    by (simp add: sim_env_def sim_stat_def one_clip_def)
  have e: "ext_of ?E ''/in/clip.webm'' = ''.webm''"
    by (simp add: sim_defs Let_def)
  have sn: "fileTypeFromFile ?E ''/in/clip.webm'' one_clip = (Inr (Some ''video/mp4''), one_clip)"
    by (simp add: sim_defs one_clip_def)
  have f: "find (\<lambda>c. category_test c ''.webm'' ''video/mp4'') category_order = Some CatVideo"
    by (simp add: category_defs startsWith_def)
  have v: "sanitizer ?E CatVideo ''/in/clip.webm'' ?tmp one_clip
             = (Inl (JsError ''ffmpeg exited with code 1: Could not write header''),
                [(''/in/clip.webm'', SimFile (Raw ''0000ftypisom...h264...'') 5 6),
                 (?tmp, SimFile (Raw []) 9 9)])"
    by (simp add: sanitizer_def processVideo_def sim_defs one_clip_def)
  have pb: "processByType ?E ''/in/clip.webm'' ?tmp one_clip
             = (Inr (caught_result ''/in/clip.webm'' ?tmp
                      (JsError ''ffmpeg exited with code 1: Could not write header'')),
                [(''/in/clip.webm'', SimFile (Raw ''0000ftypisom...h264...'') 5 6),
                 (?tmp, SimFile (Raw []) 9 9)])"
    by (simp add: processByType_route sn e f mime_of_def run_sanitizer_total v)
  have "item_body ?E overwrite_options (Some \<lparr>path = ''/in/clip.webm''\<rparr>) [] one_clip
          = (Inr ([] @ [caught_result ''/in/clip.webm'' ?tmp
                      (JsError ''ffmpeg exited with code 1: Could not write header'')]),
             [(''/in/clip.webm'', SimFile (Raw ''0000ftypisom...h264...'') 5 6),
              (?tmp, SimFile (Raw []) 9 9)])"
    by (rule item_body_pushes_error_result_as_is[OF _ rp st pb]) (simp_all add: caught_result_def)
  then show ?thesis
    by (simp add: process_files_def await_def ret_def caught_result_def err_message_def)
qed

section \<open>Archives: folders, loading and removal\<close>

subsection \<open>Folders\<close>










lemma startsWith_trans:
  assumes "startsWith a b" and "startsWith b c"
  shows "startsWith a c"
proof -
  from assms(2) have l: "length c \<le> length b"
    unfolding startsWith_def by (metis length_take min.cobounded1)
  have "take (length c) a = take (length c) (take (length b) a)"
    using l by (simp add: min_def)
  also have "\<dots> = take (length c) b" using assms(1) by (simp add: startsWith_def)
  also have "\<dots> = c" using assms(2) by (simp add: startsWith_def)
  finally show ?thesis by (simp add: startsWith_def)
qed










subsection \<open>Loaded archives\<close>








subsection \<open>Removal\<close>

lemma map_of_delete:
  "map_of (AList.delete k al) k' = (if k' = k then None else map_of al k')"
  by (simp add: delete_conv')

lemma map_of_delete_all:
  "map_of (foldl (\<lambda>fs k. AList.delete k fs) al ks) k'
     = (if k' \<in> set ks then None else map_of al k')"
  by (induction ks arbitrary: al) (auto simp: map_of_delete)

lemma set_delete_subset: "set (AList.delete k al) \<subseteq> set al"
  by (induction al) auto

lemma set_delete_all_subset: "set (foldl (\<lambda>fs k. AList.delete k fs) al ks) \<subseteq> set al"
proof (induction ks arbitrary: al)
  case Nil
  show ?case by simp
next
  case (Cons k ks)
  show ?case using Cons.IH[of "AList.delete k al"] set_delete_subset[of k al] by auto
qed

lemma distinct_delete_all:
  "distinct (map fst al) \<Longrightarrow> distinct (map fst (foldl (\<lambda>fs k. AList.delete k fs) al ks))"
  by (induction ks arbitrary: al) (simp_all add: distinct_delete)

lemma loaded_shape_smaller:
  assumes "loaded_shape z" and "set al \<subseteq> set (zip_files z)" and "distinct (map fst al)"
  shows "loaded_shape (z\<lparr>zip_files := al\<rparr>)"
  using assms by (auto simp: loaded_shape_def list_all_iff)


text \<open>\<open>zip.remove\<close> only deletes, and only entries whose name starts with the given name.\<close>

lemma zip_remove_cases:
  "\<exists>ks. zip_files (zip_remove z n0) = foldl (\<lambda>fs k. AList.delete k fs) (zip_files z) ks
        \<and> zip_comment (zip_remove z n0) = zip_comment z
        \<and> (\<forall>k \<in> set ks. startsWith k n0)
        \<and> (loaded_shape z \<and> n0 \<noteq> [] \<and> map_of (zip_files z) n0 \<noteq> None \<longrightarrow> n0 \<in> set ks)"
proof -
  define n where
    "n = (if map_of (zip_files z) n0 = None \<and> \<not> ends_with_slash n0 then n0 @ ''/'' else n0)"
  define kids where
    "kids = filter (\<lambda>(k, obj). k \<noteq> [] \<and> take (length n) (zo_name obj) = n) (zip_files z)"
  have nn: "startsWith n n0" by (simp add: n_def startsWith_def)
  have same: "n = n0" if "map_of (zip_files z) n0 \<noteq> None" using that by (simp add: n_def)
  have unfold: "zip_remove z n0 =
      (case map_of (zip_files z) n of
         Some obj \<Rightarrow>
           if \<not> zo_dir obj then z\<lparr>zip_files := AList.delete n (zip_files z)\<rparr>
           else z\<lparr>zip_files := foldl (\<lambda>fs k. AList.delete k fs) (zip_files z) (map (zo_name \<circ> snd) kids)\<rparr>
       | None \<Rightarrow>
           z\<lparr>zip_files := foldl (\<lambda>fs k. AList.delete k fs) (zip_files z) (map (zo_name \<circ> snd) kids)\<rparr>)"
    unfolding zip_remove_def Let_def n_def kids_def by (rule refl)
  have kp: "\<forall>k \<in> set (map (zo_name \<circ> snd) kids). startsWith k n0"
  proof -
    have "\<forall>k \<in> set (map (zo_name \<circ> snd) kids). startsWith k n"
      by (auto simp: kids_def startsWith_def)
    with nn show ?thesis using startsWith_trans by blast
  qed
  show ?thesis
  proof (cases "\<exists>obj. map_of (zip_files z) n = Some obj \<and> \<not> zo_dir obj")
    case True
    then obtain obj where o: "map_of (zip_files z) n = Some obj" "\<not> zo_dir obj" by blast
    then have "zip_files (zip_remove z n0) = foldl (\<lambda>fs k. AList.delete k fs) (zip_files z) [n]"
      and "zip_comment (zip_remove z n0) = zip_comment z"
      by (simp_all add: unfold)
    moreover have "\<forall>k \<in> set [n]. startsWith k n0" using nn by simp
    moreover have "map_of (zip_files z) n0 \<noteq> None \<longrightarrow> n0 \<in> set [n]" using same by simp
    ultimately show ?thesis by blast
  next
    case False
    then have f: "zip_files (zip_remove z n0)
                    = foldl (\<lambda>fs k. AList.delete k fs) (zip_files z) (map (zo_name \<circ> snd) kids)"
      and c: "zip_comment (zip_remove z n0) = zip_comment z"
      by (auto simp: unfold split: option.splits)
    have m: "n0 \<in> set (map (zo_name \<circ> snd) kids)"
      if s: "loaded_shape z" and ne: "n0 \<noteq> []" and pr: "map_of (zip_files z) n0 \<noteq> None"
    proof -
      from pr obtain obj where o: "map_of (zip_files z) n0 = Some obj" by auto
      then have i: "(n0, obj) \<in> set (zip_files z)" by (rule map_of_SomeD)
      with s have nm: "zo_name obj = n0" by (auto simp: loaded_shape_def list_all_iff)
      with i ne same[OF pr] have "(n0, obj) \<in> set kids" by (simp add: kids_def)
      then have "zo_name (snd (n0, obj)) \<in> (\<lambda>kv. zo_name (snd kv)) ` set kids" by (rule imageI)
      with nm show ?thesis by (simp add: comp_def)
    qed
    from f c kp m show ?thesis by blast
  qed
qed

lemma zip_remove_facts:
  shows zip_remove_only_deletes:
      "map_of (zip_files (zip_remove z n0)) k = None \<or>
       map_of (zip_files (zip_remove z n0)) k = map_of (zip_files z) k"
    and zip_remove_touches:
      "map_of (zip_files (zip_remove z n0)) k \<noteq> map_of (zip_files z) k \<Longrightarrow> startsWith k n0"
    and zip_remove_gone:
      "loaded_shape z \<Longrightarrow> n0 \<noteq> [] \<Longrightarrow> map_of (zip_files (zip_remove z n0)) n0 = None"
    and zip_remove_shape:
      "loaded_shape z \<Longrightarrow> loaded_shape (zip_remove z n0)"
proof -
  from zip_remove_cases[of z n0] obtain ks where
    f: "zip_files (zip_remove z n0) = foldl (\<lambda>fs k. AList.delete k fs) (zip_files z) ks"
    and p: "\<forall>k \<in> set ks. startsWith k n0"
    and m: "loaded_shape z \<and> n0 \<noteq> [] \<and> map_of (zip_files z) n0 \<noteq> None \<longrightarrow> n0 \<in> set ks"
    by blast
  show "map_of (zip_files (zip_remove z n0)) k = None \<or>
        map_of (zip_files (zip_remove z n0)) k = map_of (zip_files z) k"
    by (simp add: f map_of_delete_all)
  show "startsWith k n0" if "map_of (zip_files (zip_remove z n0)) k \<noteq> map_of (zip_files z) k"
    using that p by (auto simp: f map_of_delete_all split: if_splits)
  show "map_of (zip_files (zip_remove z n0)) n0 = None" if "loaded_shape z" and "n0 \<noteq> []"
    using that m by (auto simp: f map_of_delete_all)
  show "loaded_shape (zip_remove z n0)" if s: "loaded_shape z"
  proof -
    have "zip_remove z n0 = z\<lparr>zip_files := foldl (\<lambda>fs k. AList.delete k fs) (zip_files z) ks\<rparr>"
      using f zip_remove_cases[of z n0] by (cases z, cases "zip_remove z n0") auto
    moreover have "loaded_shape (z\<lparr>zip_files := foldl (\<lambda>fs k. AList.delete k fs) (zip_files z) ks\<rparr>)"
      using s by (intro loaded_shape_smaller set_delete_all_subset distinct_delete_all)
                 (simp_all add: loaded_shape_def)
    ultimately show ?thesis by simp
  qed
qed


section \<open>The archive sanitizer: the rebuilt archive\<close>



















section \<open>The office sanitizer: custom XML parts\<close>






















end
